theory Spec2Isabelle
  imports Main "HOL-Library.Word"
begin

unbundle bit_operations_syntax

section \<open>libhdfspp logging: data model (lib/common/logging.h)\<close>

text \<open>
  \<^verbatim>\<open>enum LogLevel { kTrace = 0, kDebug = 1, kInfo = 2, kWarning = 3, kError = 4 };\<close>
  The enumerators and their numeric values.
\<close>

datatype LogLevel = kTrace | kDebug | kInfo | kWarning | kError

fun LogLevel_val :: "LogLevel \<Rightarrow> 32 word" where
  "LogLevel_val kTrace = 0"
| "LogLevel_val kDebug = 1"
| "LogLevel_val kInfo = 2"
| "LogLevel_val kWarning = 3"
| "LogLevel_val kError = 4"

text \<open>
  \<^verbatim>\<open>enum LogSourceComponent { kUnknown = 1 << 0, kRPC = 1 << 1, kBlockReader = 1 << 2,
                            kFileHandle = 1 << 3, kFileSystem = 1 << 4 };\<close>
\<close>

datatype LogSourceComponent = kUnknown | kRPC | kBlockReader | kFileHandle | kFileSystem

fun LogSourceComponent_val :: "LogSourceComponent \<Rightarrow> 32 word" where
  "LogSourceComponent_val kUnknown = push_bit 0 1"
| "LogSourceComponent_val kRPC = push_bit 1 1"
| "LogSourceComponent_val kBlockReader = push_bit 2 1"
| "LogSourceComponent_val kFileHandle = push_bit 3 1"
| "LogSourceComponent_val kFileSystem = push_bit 4 1"

text \<open>
  The base class \<^verbatim>\<open>LoggerInterface\<close> holds the filter state in two \<^verbatim>\<open>uint32_t\<close>
  members \<^verbatim>\<open>component_mask_\<close> and \<^verbatim>\<open>level_threshold_\<close> (written here without the
  trailing underscore). The derived sinks extend the record, as the classes extend the
  base class.
\<close>

record LoggerInterface =
  component_mask :: "32 word"
  level_threshold :: "32 word"

text \<open>
  \<^verbatim>\<open>LoggerInterface() : component_mask_(0xFFFFFFFF), level_threshold_(kTrace) {}\<close>
\<close>

definition LoggerInterface_ctor :: LoggerInterface where
  "LoggerInterface_ctor =
     \<lparr>component_mask = 0xFFFFFFFF, level_threshold = LogLevel_val kTrace\<rparr>"

text \<open>
  \<^verbatim>\<open>bool LoggerInterface::ShouldLog(LogLevel level, LogSourceComponent component) {
    if(level < level_threshold_) return false;
    if(!(component & component_mask_)) return false;
    return true; }\<close>
  Both operands are converted to the unsigned 32-bit type of the members.
\<close>

definition ShouldLog ::
  "'a LoggerInterface_scheme \<Rightarrow> LogLevel \<Rightarrow> LogSourceComponent \<Rightarrow> bool" where
  "ShouldLog L level component =
     (if LogLevel_val level < level_threshold L then False
      else if (LogSourceComponent_val component AND component_mask L) = 0 then False
      else True)"

text \<open>\<^verbatim>\<open>component_mask_ |= c;\<close>\<close>

definition EnableLoggingForComponent ::
  "'a LoggerInterface_scheme \<Rightarrow> LogSourceComponent \<Rightarrow> 'a LoggerInterface_scheme" where
  "EnableLoggingForComponent L c =
     L\<lparr>component_mask := component_mask L OR LogSourceComponent_val c\<rparr>"

text \<open>\<^verbatim>\<open>component_mask_ &= ~c;\<close>\<close>

definition DisableLoggingForComponent ::
  "'a LoggerInterface_scheme \<Rightarrow> LogSourceComponent \<Rightarrow> 'a LoggerInterface_scheme" where
  "DisableLoggingForComponent L c =
     L\<lparr>component_mask := component_mask L AND NOT (LogSourceComponent_val c)\<rparr>"

text \<open>
  \<^verbatim>\<open>level_threshold_ = level;\<close> The line the function also prints to \<^verbatim>\<open>std::cerr\<close>
  is recorded by the caller, \<open>LogManager_SetLogLevel\<close>, which owns the output trace.
\<close>

definition SetLogLevel ::
  "'a LoggerInterface_scheme \<Rightarrow> LogLevel \<Rightarrow> 'a LoggerInterface_scheme" where
  "SetLogLevel L level = L\<lparr>level_threshold := LogLevel_val level\<rparr>"

section \<open>The sinks (lib/common/logging.h, logging.cc)\<close>

text \<open>
  \<^verbatim>\<open>class StderrLogger : public LoggerInterface\<close> with its four \<^verbatim>\<open>bool\<close> members, and
  its constructor, which sets every one of them to \<^verbatim>\<open>true\<close>.
\<close>

record StderrLogger = LoggerInterface +
  show_timestamp :: bool
  show_level :: bool
  show_thread :: bool
  show_component :: bool

definition StderrLogger_ctor :: StderrLogger where
  "StderrLogger_ctor =
     \<lparr>component_mask = 0xFFFFFFFF, level_threshold = LogLevel_val kTrace,
      show_timestamp = True, show_level = True, show_thread = True, show_component = True\<rparr>"

definition set_show_timestamp :: "StderrLogger \<Rightarrow> bool \<Rightarrow> StderrLogger" where
  "set_show_timestamp L show = L\<lparr>show_timestamp := show\<rparr>"

definition set_show_level :: "StderrLogger \<Rightarrow> bool \<Rightarrow> StderrLogger" where
  "set_show_level L show = L\<lparr>show_level := show\<rparr>"

definition set_show_thread :: "StderrLogger \<Rightarrow> bool \<Rightarrow> StderrLogger" where
  "set_show_thread L show = L\<lparr>show_thread := show\<rparr>"

definition set_show_component :: "StderrLogger \<Rightarrow> bool \<Rightarrow> StderrLogger" where
  "set_show_component L show = L\<lparr>show_component := show\<rparr>"

text \<open>
  \<^verbatim>\<open>class CForwardingLogger : public LoggerInterface\<close> holds a C function pointer
  \<^verbatim>\<open>void (*callback_)(LogData*)\<close>. A function is identified by a number; \<open>None\<close> is the
  null pointer. The constructor sets it to \<^verbatim>\<open>nullptr\<close>.
\<close>

type_synonym fnptr = nat

record CForwardingLogger = LoggerInterface +
  callback :: "fnptr option"

definition CForwardingLogger_ctor :: CForwardingLogger where
  "CForwardingLogger_ctor =
     \<lparr>component_mask = 0xFFFFFFFF, level_threshold = LogLevel_val kTrace, callback = None\<rparr>"

definition SetCallback :: "CForwardingLogger \<Rightarrow> fnptr option \<Rightarrow> CForwardingLogger" where
  "SetCallback L cb = L\<lparr>callback := cb\<rparr>"

text \<open>
  The object behind \<^verbatim>\<open>std::unique_ptr<LoggerInterface>\<close>: one of the two sinks. The four
  functions of the base class are not virtual, so a call through the base pointer runs
  the base class's code on the object's base part.
\<close>

datatype Logger = Stderr StderrLogger | CForwarding CForwardingLogger

fun Logger_ShouldLog :: "Logger \<Rightarrow> LogLevel \<Rightarrow> LogSourceComponent \<Rightarrow> bool" where
  "Logger_ShouldLog (Stderr L) l c = ShouldLog L l c"
| "Logger_ShouldLog (CForwarding L) l c = ShouldLog L l c"

fun Logger_EnableLoggingForComponent :: "Logger \<Rightarrow> LogSourceComponent \<Rightarrow> Logger" where
  "Logger_EnableLoggingForComponent (Stderr L) c = Stderr (EnableLoggingForComponent L c)"
| "Logger_EnableLoggingForComponent (CForwarding L) c =
     CForwarding (EnableLoggingForComponent L c)"

fun Logger_DisableLoggingForComponent :: "Logger \<Rightarrow> LogSourceComponent \<Rightarrow> Logger" where
  "Logger_DisableLoggingForComponent (Stderr L) c = Stderr (DisableLoggingForComponent L c)"
| "Logger_DisableLoggingForComponent (CForwarding L) c =
     CForwarding (DisableLoggingForComponent L c)"

fun Logger_SetLogLevel :: "Logger \<Rightarrow> LogLevel \<Rightarrow> Logger" where
  "Logger_SetLogLevel (Stderr L) l = Stderr (SetLogLevel L l)"
| "Logger_SetLogLevel (CForwarding L) l = CForwarding (SetLogLevel L l)"

section \<open>Rendering of numbers and addresses by the stream\<close>

text \<open>
  \<^verbatim>\<open>msg_buffer_ << val\<close> on a \<^verbatim>\<open>std::stringstream\<close> with its default flags writes an
  integer in decimal, with a minus sign when negative, and an address as the C library's
  \<^verbatim>\<open>%p\<close> does: \<^verbatim>\<open>0x\<close> and the lower-case hexadecimal digits, or \<^verbatim>\<open>0\<close> for the null
  address (the format of libstdc++; the C++ standard leaves it to the implementation).
\<close>

definition digit_char :: "nat \<Rightarrow> char" where
  "digit_char d = ''0123456789abcdef'' ! d"

fun dec_string :: "nat \<Rightarrow> string" where
  "dec_string n =
     (if n < 10 then [digit_char n] else dec_string (n div 10) @ [digit_char (n mod 10)])"

fun hex_string :: "nat \<Rightarrow> string" where
  "hex_string n =
     (if n < 16 then [digit_char n] else hex_string (n div 16) @ [digit_char (n mod 16)])"

definition int_string :: "int \<Rightarrow> string" where
  "int_string i = (if i < 0 then ''-'' @ dec_string (nat (- i)) else dec_string (nat i))"

definition address_string :: "64 word \<Rightarrow> string" where
  "address_string a = (if a = 0 then ''0'' else ''0x'' @ hex_string (unat a))"

section \<open>The message object (class LogMessageObj)\<close>

text \<open>
  A pointer argument of an append operation: the null pointer, or an address together with
  the object found there.
\<close>

datatype 'a pointer = nullptr | Ptr (addr: "64 word") (pointee: 'a)

text \<open>
  The members \<^verbatim>\<open>worth_reporting_\<close> (const), \<^verbatim>\<open>level_\<close>, \<^verbatim>\<open>component_\<close> and
  \<^verbatim>\<open>msg_buffer_\<close>; the buffer is the text streamed so far.
\<close>

record LogMessageObj =
  worth_reporting :: bool
  level :: LogLevel
  component :: LogSourceComponent
  msg_buffer :: string

definition is_worth_reporting :: "LogMessageObj \<Rightarrow> bool" where
  "is_worth_reporting m = worth_reporting m"

text \<open>
  \<^verbatim>\<open>if(str && worth_reporting_) msg_buffer_ << str;\<close> with \<^verbatim>\<open>const char *str\<close>: the
  stream writes the characters of the C string.
\<close>

definition shl_cstr :: "LogMessageObj \<Rightarrow> string pointer \<Rightarrow> LogMessageObj" where
  "shl_cstr m str =
     (case str of
        nullptr \<Rightarrow> m
      | Ptr a s \<Rightarrow> if worth_reporting m then m\<lparr>msg_buffer := msg_buffer m @ s\<rparr> else m)"

text \<open>\<^verbatim>\<open>if(worth_reporting_) msg_buffer_ << str;\<close> with \<^verbatim>\<open>const std::string& str\<close>.\<close>

definition shl_string :: "LogMessageObj \<Rightarrow> string \<Rightarrow> LogMessageObj" where
  "shl_string m str =
     (if worth_reporting m then m\<lparr>msg_buffer := msg_buffer m @ str\<rparr> else m)"

text \<open>
  \<^verbatim>\<open>if(str && worth_reporting_) msg_buffer_ << str;\<close> with \<^verbatim>\<open>const std::string *str\<close>. The
  stream has no inserter for a pointer to \<^verbatim>\<open>std::string\<close>; the pointer converts to
  \<^verbatim>\<open>const void*\<close> and the stream writes the address, not the string found there.
\<close>

definition shl_string_ptr :: "LogMessageObj \<Rightarrow> string pointer \<Rightarrow> LogMessageObj" where
  "shl_string_ptr m str =
     (case str of
        nullptr \<Rightarrow> m
      | Ptr a s \<Rightarrow>
          if worth_reporting m then m\<lparr>msg_buffer := msg_buffer m @ address_string a\<rparr>
          else m)"

definition shl_bool :: "LogMessageObj \<Rightarrow> bool \<Rightarrow> LogMessageObj" where
  "shl_bool m val =
     (if worth_reporting m then
        (if val then m\<lparr>msg_buffer := msg_buffer m @ ''true''\<rparr>
         else m\<lparr>msg_buffer := msg_buffer m @ ''false''\<rparr>)
      else m)"

definition shl_int32 :: "LogMessageObj \<Rightarrow> 32 word \<Rightarrow> LogMessageObj" where
  "shl_int32 m val =
     (if worth_reporting m then m\<lparr>msg_buffer := msg_buffer m @ int_string (sint val)\<rparr>
      else m)"

definition shl_uint32 :: "LogMessageObj \<Rightarrow> 32 word \<Rightarrow> LogMessageObj" where
  "shl_uint32 m val =
     (if worth_reporting m then m\<lparr>msg_buffer := msg_buffer m @ dec_string (unat val)\<rparr>
      else m)"

definition shl_int64 :: "LogMessageObj \<Rightarrow> 64 word \<Rightarrow> LogMessageObj" where
  "shl_int64 m val =
     (if worth_reporting m then m\<lparr>msg_buffer := msg_buffer m @ int_string (sint val)\<rparr>
      else m)"

definition shl_uint64 :: "LogMessageObj \<Rightarrow> 64 word \<Rightarrow> LogMessageObj" where
  "shl_uint64 m val =
     (if worth_reporting m then m\<lparr>msg_buffer := msg_buffer m @ dec_string (unat val)\<rparr>
      else m)"

text \<open>\<^verbatim>\<open>if(worth_reporting_) msg_buffer_ << ptr;\<close> with \<^verbatim>\<open>void *ptr\<close>.\<close>

definition shl_void_ptr :: "LogMessageObj \<Rightarrow> 64 word \<Rightarrow> LogMessageObj" where
  "shl_void_ptr m p =
     (if worth_reporting m then m\<lparr>msg_buffer := msg_buffer m @ address_string p\<rparr>
      else m)"

text \<open>\<^verbatim>\<open>if(worth_reporting_) return msg_buffer_.str(); return "";\<close>\<close>

definition MsgString :: "LogMessageObj \<Rightarrow> string" where
  "MsgString m = (if worth_reporting m then msg_buffer m else [])"

text \<open>\<^verbatim>\<open>return kLevelStrings[level_];\<close>\<close>

definition kLevelStrings :: "string list" where
  "kLevelStrings = [''[TRACE ]'', ''[DEBUG ]'', ''[INFO  ]'', ''[WARN  ]'', ''[ERROR ]'']"

definition level_string :: "LogMessageObj \<Rightarrow> string" where
  "level_string m = kLevelStrings ! unat (LogLevel_val (level m))"

definition kComponentStrings :: "string list" where
  "kComponentStrings =
     [''[Unknown     ]'', ''[RPC         ]'', ''[BlockReader ]'', ''[FileHandle  ]'',
      ''[FileSystem  ]'']"

definition component_string :: "LogMessageObj \<Rightarrow> string" where
  "component_string m =
     (case component m of
        kRPC \<Rightarrow> kComponentStrings ! 1
      | kBlockReader \<Rightarrow> kComponentStrings ! 2
      | kFileHandle \<Rightarrow> kComponentStrings ! 3
      | kFileSystem \<Rightarrow> kComponentStrings ! 4
      | kUnknown \<Rightarrow> kComponentStrings ! 0)"

text \<open>
  One append call with its argument, the overload chosen by the argument's type.
\<close>

datatype append_arg =
    CStr "string pointer"
  | Str string
  | StrPtr "string pointer"
  | Bool bool
  | Int32 "32 word"
  | UInt32 "32 word"
  | Int64 "64 word"
  | UInt64 "64 word"
  | VoidPtr "64 word"

fun append :: "append_arg \<Rightarrow> LogMessageObj \<Rightarrow> LogMessageObj" where
  "append (CStr p) m = shl_cstr m p"
| "append (Str s) m = shl_string m s"
| "append (StrPtr p) m = shl_string_ptr m p"
| "append (Bool b) m = shl_bool m b"
| "append (Int32 v) m = shl_int32 m v"
| "append (UInt32 v) m = shl_uint32 m v"
| "append (Int64 v) m = shl_int64 m v"
| "append (UInt64 v) m = shl_uint64 m v"
| "append (VoidPtr p) m = shl_void_ptr m p"

section \<open>What the sinks write\<close>

text \<open>
  The effects of a sink that a caller can observe: characters sent to \<^verbatim>\<open>std::cerr\<close>, and
  a call of the registered C function with the record it is given (the level and
  component as \<^verbatim>\<open>int\<close>, and the text its \<^verbatim>\<open>msg\<close> pointer leads to). They are kept in
  order in a trace.
\<close>

datatype event = Cerr string | Callback fnptr int int string

text \<open>
  What \<^verbatim>\<open>StderrLogger::Write\<close> reads from its surroundings: the string returned by
  \<^verbatim>\<open>std::asctime(std::localtime(&current_time))\<close> and the rendering of
  \<^verbatim>\<open>std::this_thread::get_id()\<close>.
\<close>

record env =
  asctime :: string
  thread_id :: string

text \<open>
  \<^verbatim>\<open>void StderrLogger::Write(const LogMessageObj& msg) {
    if(!msg.is_worth_reporting()) return;
    std::stringstream formatted;
    if(show_level_) formatted << msg.level_string();
    if(show_component_) formatted << msg.component_string();
    if(show_timestamp_) {
      time_t current_time = std::time(nullptr);
      char * timestr = std::asctime(std::localtime(&current_time));
      int len = strlen(timestr);
      if(len >=2) timestr[len-1] = 0;
      formatted << '[' << timestr << ']';
    }
    if(show_component_) {
      formatted << "[Thread id = " << std::this_thread::get_id() << ']';
    }
    std::cerr << formatted.str() << "    " << msg.MsgString() << std::endl; }\<close>
  The function returns the trace with the line added.
\<close>

definition StderrLogger_Write ::
  "env \<Rightarrow> StderrLogger \<Rightarrow> LogMessageObj \<Rightarrow> event list \<Rightarrow> event list" where
  "StderrLogger_Write e L m tr =
     (if \<not> is_worth_reporting m then tr
      else
        let formatted = [];
            formatted = (if show_level L then formatted @ level_string m else formatted);
            formatted = (if show_component L then formatted @ component_string m
                         else formatted);
            formatted =
              (if show_timestamp L then
                 let timestr = asctime e;
                     len = length timestr;
                     timestr = (if len \<ge> 2 then take (len - 1) timestr else timestr)
                 in formatted @ ''['' @ timestr @ '']''
               else formatted);
            formatted =
              (if show_component L then
                 formatted @ ''[Thread id = '' @ thread_id e @ '']''
               else formatted)
        in tr @ [Cerr (formatted @ ''    '' @ MsgString m @ [CHR 0x0A])])"

text \<open>
  \<^verbatim>\<open>void CForwardingLogger::Write(const LogMessageObj& msg) {
    if(!msg.is_worth_reporting()) return;
    if(!callback_) return;
    const std::string text = msg.MsgString();
    LogData data;
    data.level = msg.level();
    data.component = msg.component();
    data.msg = text.c_str();
    callback_(&data); }\<close>
  The callback gets the text as a C string, \<^verbatim>\<open>text.c_str()\<close>: what it can read through
  \<^verbatim>\<open>data.msg\<close> are the characters before the first NUL.
\<close>

definition c_str :: "string \<Rightarrow> string" where
  "c_str text = takeWhile (\<lambda>ch. ch \<noteq> CHR 0x00) text"

definition CForwardingLogger_Write ::
  "CForwardingLogger \<Rightarrow> LogMessageObj \<Rightarrow> event list \<Rightarrow> event list" where
  "CForwardingLogger_Write L m tr =
     (if \<not> is_worth_reporting m then tr
      else
        case callback L of
          None \<Rightarrow> tr
        | Some f \<Rightarrow>
            let text = MsgString m in
            tr @ [Callback f (uint (LogLevel_val (level m)))
                    (uint (LogSourceComponent_val (component m))) (c_str text)])"

text \<open>The virtual call \<^verbatim>\<open>logger_impl_->Write(msg)\<close>.\<close>

fun Logger_Write :: "env \<Rightarrow> Logger \<Rightarrow> LogMessageObj \<Rightarrow> event list \<Rightarrow> event list" where
  "Logger_Write e (Stderr L) m tr = StderrLogger_Write e L m tr"
| "Logger_Write e (CForwarding L) m tr = CForwardingLogger_Write L m tr"

section \<open>The manager (class LogManager)\<close>

text \<open>
  The static member \<^verbatim>\<open>logger_impl_\<close> (\<open>None\<close> when the pointer is null) and the trace of
  what the sinks have written. Every function of the manager holds \<^verbatim>\<open>impl_lock_\<close> from
  its first statement to its return, so the functions run one after another; each is a
  function on this state.
\<close>

record world =
  logger_impl :: "Logger option"
  trace :: "event list"

text \<open>
  \<^verbatim>\<open>LogManager::logger_impl_(new StderrLogger())\<close>: the state at process start.
\<close>

definition world_init :: world where
  "world_init = \<lparr>logger_impl = Some (Stderr StderrLogger_ctor), trace = []\<rparr>"

text \<open>\<^verbatim>\<open>if(logger_impl_) logger_impl_->DisableLoggingForComponent(c);\<close>\<close>

definition LogManager_DisableLogForComponent :: "world \<Rightarrow> LogSourceComponent \<Rightarrow> world" where
  "LogManager_DisableLogForComponent w c =
     (case logger_impl w of
        Some L \<Rightarrow> w\<lparr>logger_impl := Some (Logger_DisableLoggingForComponent L c)\<rparr>
      | None \<Rightarrow> w)"

text \<open>\<^verbatim>\<open>if(logger_impl_) logger_impl_->EnableLoggingForComponent(c);\<close>\<close>

definition LogManager_EnableLogForComponent :: "world \<Rightarrow> LogSourceComponent \<Rightarrow> world" where
  "LogManager_EnableLogForComponent w c =
     (case logger_impl w of
        Some L \<Rightarrow> w\<lparr>logger_impl := Some (Logger_EnableLoggingForComponent L c)\<rparr>
      | None \<Rightarrow> w)"

text \<open>
  \<^verbatim>\<open>if(logger_impl_) logger_impl_->SetLogLevel(level);\<close> where
  \<^verbatim>\<open>LoggerInterface::SetLogLevel\<close> first runs
  \<^verbatim>\<open>std::cerr << "SETLOGLEVEL_CALLED_" << std::endl;\<close>
\<close>

definition LogManager_SetLogLevel :: "world \<Rightarrow> LogLevel \<Rightarrow> world" where
  "LogManager_SetLogLevel w l =
     (case logger_impl w of
        Some L \<Rightarrow>
          w\<lparr>logger_impl := Some (Logger_SetLogLevel L l),
            trace := trace w @ [Cerr (''SETLOGLEVEL_CALLED_'' @ [CHR 0x0A])]\<rparr>
      | None \<Rightarrow> w)"

text \<open>\<^verbatim>\<open>if(logger_impl_) return logger_impl_->ShouldLog(level, source); return false;\<close>\<close>

definition LogManager_ShouldLog :: "world \<Rightarrow> LogLevel \<Rightarrow> LogSourceComponent \<Rightarrow> bool" where
  "LogManager_ShouldLog w l source =
     (case logger_impl w of
        Some L \<Rightarrow> Logger_ShouldLog L l source
      | None \<Rightarrow> False)"

text \<open>\<^verbatim>\<open>if(logger_impl_) logger_impl_->Write(msg);\<close>\<close>

definition LogManager_Write :: "env \<Rightarrow> LogMessageObj \<Rightarrow> world \<Rightarrow> world" where
  "LogManager_Write e m w =
     (case logger_impl w of
        Some L \<Rightarrow> w\<lparr>trace := Logger_Write e L m (trace w)\<rparr>
      | None \<Rightarrow> w)"

text \<open>
  \<^verbatim>\<open>logger_impl_.reset(nullptr); logger_impl_.reset(impl.release());\<close> The destructors of
  the sinks do nothing.
\<close>

definition LogManager_SetLoggerImplementation :: "world \<Rightarrow> Logger option \<Rightarrow> world" where
  "LogManager_SetLoggerImplementation w impl =
     (let w = w\<lparr>logger_impl := None\<rparr> in w\<lparr>logger_impl := impl\<rparr>)"

section \<open>Construction and destruction of a message\<close>

text \<open>
  \<^verbatim>\<open>LogMessageObj(const LogLevel &l, LogSourceComponent component = kUnknown) :
      worth_reporting_(LogManager::ShouldLog(l,component)), level_(l),
      component_(component) {}\<close>
  The buffer starts empty. \<open>LogManager_ShouldLog\<close> leaves the state as it is.
\<close>

definition LogMessageObj_ctor :: "world \<Rightarrow> LogLevel \<Rightarrow> LogSourceComponent \<Rightarrow> LogMessageObj" where
  "LogMessageObj_ctor w l c =
     \<lparr>worth_reporting = LogManager_ShouldLog w l c, level = l, component = c,
      msg_buffer = []\<rparr>"

text \<open>\<^verbatim>\<open>LogMessageObj::~LogMessageObj() { if(worth_reporting_) LogManager::Write(*this); }\<close>\<close>

definition LogMessageObj_dtor :: "env \<Rightarrow> LogMessageObj \<Rightarrow> world \<Rightarrow> world" where
  "LogMessageObj_dtor e m w = (if worth_reporting m then LogManager_Write e m w else w)"

text \<open>
  What can happen between the construction and the destruction of one message: an append
  to it, or a call of the manager that changes the filter or the sink.
\<close>

datatype action =
    Append append_arg
  | EnableLogForComponent LogSourceComponent
  | DisableLogForComponent LogSourceComponent
  | SetLevel LogLevel
  | SetLoggerImplementation "Logger option"

fun step :: "action \<Rightarrow> LogMessageObj \<times> world \<Rightarrow> LogMessageObj \<times> world" where
  "step (Append a) (m, w) = (append a m, w)"
| "step (EnableLogForComponent c) (m, w) = (m, LogManager_EnableLogForComponent w c)"
| "step (DisableLogForComponent c) (m, w) = (m, LogManager_DisableLogForComponent w c)"
| "step (SetLevel l) (m, w) = (m, LogManager_SetLogLevel w l)"
| "step (SetLoggerImplementation impl) (m, w) =
     (m, LogManager_SetLoggerImplementation w impl)"

fun run :: "action list \<Rightarrow> LogMessageObj \<times> world \<Rightarrow> LogMessageObj \<times> world" where
  "run [] s = s"
| "run (a # as) s = run as (step a s)"

section \<open>Copies of the forwarded record (CopyLogData, FreeLogData)\<close>

text \<open>
  A C pointer is an address; address 0 is the null pointer.
\<close>

type_synonym ptr = nat

abbreviation NULL :: ptr where
  "NULL \<equiv> 0"

text \<open>
  Modelled from the spec: the struct \<^verbatim>\<open>LogData\<close> is declared in \<^verbatim>\<open>hdfspp/hdfs_ext.h\<close>,
  which is not among the sources. The spec describes it as a plain data record
  \<^verbatim>\<open>{level: integer, component: integer, message: text}\<close>, and \<^verbatim>\<open>logging.cc\<close> uses
  exactly the members \<^verbatim>\<open>level\<close>, \<^verbatim>\<open>component\<close> and \<^verbatim>\<open>msg\<close> (a \<^verbatim>\<open>const char*\<close>). The
  fields carry the prefix \<open>data_\<close> to keep them apart from those of the message object.
\<close>

record LogData =
  data_level :: int
  data_component :: int
  data_msg :: ptr

text \<open>
  The memory the two functions work on: the live objects by address (a \<^verbatim>\<open>LogData\<close>
  struct or a NUL-terminated character array), and what the allocator will hand out next.
  Each entry of \<open>avail\<close> is the address of a free block with the bytes left in it, read
  as a \<^verbatim>\<open>LogData\<close>; \<^verbatim>\<open>malloc\<close> does not clear a block. When \<open>avail\<close> is empty an
  allocation fails. A freed block is not handed out again.
\<close>

datatype object = LogDataObj LogData | CharsObj string

record heap =
  objects :: "ptr \<rightharpoonup> object"
  avail :: "(ptr \<times> LogData) list"

text \<open>
  Undefined behaviour of the C program is a value of its own: an access through a pointer
  that does not lead to a live object of the right kind, or \<^verbatim>\<open>free\<close> of an address that
  is not a live block.
\<close>

datatype fault = InvalidRead ptr | InvalidWrite ptr | InvalidFree ptr

text \<open>A statement that has undefined behaviour ends the run; otherwise the next one runs.\<close>

definition and_then :: "fault + 'a \<Rightarrow> ('a \<Rightarrow> fault + 'b) \<Rightarrow> fault + 'b" where
  "and_then r k = (case r of Inl f \<Rightarrow> Inl f | Inr x \<Rightarrow> k x)"

text \<open>\<^verbatim>\<open>(LogData*)malloc(sizeof(LogData))\<close>: null on failure.\<close>

definition malloc_LogData :: "heap \<Rightarrow> ptr \<times> heap" where
  "malloc_LogData h =
     (case avail h of
        [] \<Rightarrow> (NULL, h)
      | (p, stale) # rest \<Rightarrow>
          (p, h\<lparr>objects := (objects h)(p \<mapsto> LogDataObj stale), avail := rest\<rparr>))"

text \<open>\<^verbatim>\<open>strdup(s)\<close>: a new character array with the characters of \<^verbatim>\<open>s\<close>, null on failure.\<close>

definition strdup :: "heap \<Rightarrow> ptr \<Rightarrow> fault + ptr \<times> heap" where
  "strdup h s =
     (case objects h s of
        Some (CharsObj cs) \<Rightarrow>
          (case avail h of
             [] \<Rightarrow> Inr (NULL, h)
           | (p, stale) # rest \<Rightarrow>
               Inr (p, h\<lparr>objects := (objects h)(p \<mapsto> CharsObj cs), avail := rest\<rparr>))
      | _ \<Rightarrow> Inl (InvalidRead s))"

text \<open>\<^verbatim>\<open>free(p)\<close>.\<close>

definition free :: "heap \<Rightarrow> ptr \<Rightarrow> fault + heap" where
  "free h p =
     (if p = NULL then Inr h
      else
        case objects h p of
          None \<Rightarrow> Inl (InvalidFree p)
        | Some obj \<Rightarrow> Inr (h\<lparr>objects := (objects h)(p := None)\<rparr>))"

text \<open>Reading the struct behind a \<^verbatim>\<open>LogData*\<close>, and writing to it.\<close>

definition load :: "heap \<Rightarrow> ptr \<Rightarrow> fault + LogData" where
  "load h p =
     (case objects h p of
        Some (LogDataObj d) \<Rightarrow> Inr d
      | _ \<Rightarrow> Inl (InvalidRead p))"

definition update :: "heap \<Rightarrow> ptr \<Rightarrow> (LogData \<Rightarrow> LogData) \<Rightarrow> fault + heap" where
  "update h p f =
     (case objects h p of
        Some (LogDataObj d) \<Rightarrow> Inr (h\<lparr>objects := (objects h)(p \<mapsto> LogDataObj (f d))\<rparr>)
      | _ \<Rightarrow> Inl (InvalidWrite p))"

text \<open>
  \<^verbatim>\<open>LogData *CForwardingLogger::CopyLogData(const LogData *orig) {
    if(!orig) return nullptr;
    LogData *copy = (LogData*)malloc(sizeof(LogData));
    if(!copy) return nullptr;
    copy->level = orig->level;
    copy->component = orig->component;
    if(orig->msg)
      copy->msg = strdup(orig->msg);
    return copy; }\<close>
\<close>

definition CopyLogData :: "heap \<Rightarrow> ptr \<Rightarrow> fault + ptr \<times> heap" where
  "CopyLogData h orig =
     (if orig = NULL then Inr (NULL, h)
      else
        let (copy, h) = malloc_LogData h in
        if copy = NULL then Inr (NULL, h)
        else
          and_then (load h orig) (\<lambda>od.
          and_then (update h copy (\<lambda>d. d\<lparr>data_level := data_level od\<rparr>)) (\<lambda>h.
          and_then (update h copy (\<lambda>d. d\<lparr>data_component := data_component od\<rparr>)) (\<lambda>h.
          if data_msg od \<noteq> NULL then
            and_then (strdup h (data_msg od)) (\<lambda>(p, h).
            and_then (update h copy (\<lambda>d. d\<lparr>data_msg := p\<rparr>)) (\<lambda>h.
            Inr (copy, h)))
          else Inr (copy, h)))))"

text \<open>
  \<^verbatim>\<open>void CForwardingLogger::FreeLogData(LogData *data) {
    if(!data) return;
    if(data->msg) free((void*)data->msg);
    memset(data, 0, sizeof(LogData));
    free(data); }\<close>
\<close>

definition FreeLogData :: "heap \<Rightarrow> ptr \<Rightarrow> fault + heap" where
  "FreeLogData h data =
     (if data = NULL then Inr h
      else
        and_then (load h data) (\<lambda>d.
        and_then (if data_msg d \<noteq> NULL then free h (data_msg d) else Inr h) (\<lambda>h.
        and_then (update h data
                   (\<lambda>d. \<lparr>data_level = 0, data_component = 0, data_msg = NULL\<rparr>)) (\<lambda>h.
        free h data))))"

text \<open>The text a record's \<^verbatim>\<open>msg\<close> leads to, when it leads to a character array.\<close>

definition text_of :: "heap \<Rightarrow> LogData \<Rightarrow> string option" where
  "text_of h d =
     (case objects h (data_msg d) of
        Some (CharsObj cs) \<Rightarrow> Some cs
      | _ \<Rightarrow> None)"

section \<open>Properties of the message object\<close>

text \<open>
  No append operation changes the cached decision, the level or the component of a
  message, and on a message that is not worth reporting every append operation returns
  the message as it was.
\<close>

lemmas shl_defs =
  shl_cstr_def shl_string_def shl_string_ptr_def shl_bool_def shl_int32_def shl_uint32_def
  shl_int64_def shl_uint64_def shl_void_ptr_def

lemma append_worth_reporting: "worth_reporting (append a m) = worth_reporting m"
  by (cases a) (simp_all add: shl_defs split: pointer.split)

lemma append_level: "level (append a m) = level m"
  by (cases a) (simp_all add: shl_defs split: pointer.split)

lemma append_component: "component (append a m) = component m"
  by (cases a) (simp_all add: shl_defs split: pointer.split)

lemma append_suppressed: "\<not> worth_reporting m \<Longrightarrow> append a m = m"
  by (cases a) (simp_all add: shl_defs split: pointer.split)

lemma fold_append_suppressed: "\<not> worth_reporting m \<Longrightarrow> fold append as m = m"
  by (induction as) (simp_all add: append_suppressed)

lemma fold_append_message:
  "worth_reporting (fold append as m) = worth_reporting m
   \<and> level (fold append as m) = level m
   \<and> component (fold append as m) = component m"
  by (induction as arbitrary: m)
     (simp_all add: append_worth_reporting append_level append_component)

lemma step_message:
  "worth_reporting (fst (step a s)) = worth_reporting (fst s)
   \<and> level (fst (step a s)) = level (fst s)
   \<and> component (fst (step a s)) = component (fst s)"
  by (cases a; cases s) (simp_all add: append_worth_reporting append_level append_component)

lemma run_message:
  "worth_reporting (fst (run acts s)) = worth_reporting (fst s)
   \<and> level (fst (run acts s)) = level (fst s)
   \<and> component (fst (run acts s)) = component (fst s)"
  by (induction acts arbitrary: s) (simp_all add: step_message)

section \<open>Filter correctness\<close>

text \<open>
  C1. For every level, every component and every filter state (threshold, mask) of a sink,
  \<open>ShouldLog\<close> answers true exactly when the level is at least the threshold and the
  component's bit is set in the mask, and the manager gives the same answer for the
  installed sink, whichever of the two sinks it is. A message is delivered exactly under
  that condition: a message constructed at that level and component, given any appends and
  destroyed, makes the console sink write to \<^verbatim>\<open>std::cerr\<close> if and only if the condition
  holds, and makes the forwarding sink call its callback, once, with that level, that
  component and the text of the buffer, if the condition holds, and not at all otherwise.
\<close>

theorem ShouldLog_iff:
  "ShouldLog L l c =
     (level_threshold L \<le> LogLevel_val l
      \<and> (LogSourceComponent_val c AND component_mask L) \<noteq> 0)
   \<and> LogManager_ShouldLog \<lparr>logger_impl = Some (Stderr L1), trace = tr\<rparr> l c =
     (level_threshold L1 \<le> LogLevel_val l
      \<and> (LogSourceComponent_val c AND component_mask L1) \<noteq> 0)
   \<and> LogManager_ShouldLog \<lparr>logger_impl = Some (CForwarding L2), trace = tr\<rparr> l c =
     (level_threshold L2 \<le> LogLevel_val l
      \<and> (LogSourceComponent_val c AND component_mask L2) \<noteq> 0)
   \<and> (trace (LogMessageObj_dtor e
          (fold append as
            (LogMessageObj_ctor \<lparr>logger_impl = Some (Stderr L1), trace = tr\<rparr> l c))
          \<lparr>logger_impl = Some (Stderr L1), trace = tr\<rparr>) \<noteq> tr) =
     (level_threshold L1 \<le> LogLevel_val l
      \<and> (LogSourceComponent_val c AND component_mask L1) \<noteq> 0)
   \<and> trace (LogMessageObj_dtor e
          (fold append as
            (LogMessageObj_ctor
              \<lparr>logger_impl = Some (CForwarding (SetCallback L2 (Some f))), trace = tr\<rparr> l c))
          \<lparr>logger_impl = Some (CForwarding (SetCallback L2 (Some f))), trace = tr\<rparr>) =
     (if level_threshold L2 \<le> LogLevel_val l
         \<and> (LogSourceComponent_val c AND component_mask L2) \<noteq> 0
      then tr @ [Callback f (uint (LogLevel_val l)) (uint (LogSourceComponent_val c))
                  (c_str (msg_buffer (fold append as
                     (LogMessageObj_ctor
                        \<lparr>logger_impl = Some (CForwarding (SetCallback L2 (Some f))),
                         trace = tr\<rparr> l c))))]
      else tr)"
proof -
  have filter: "\<And>K :: 'z LoggerInterface_scheme. ShouldLog K l c =
      (level_threshold K \<le> LogLevel_val l
       \<and> (LogSourceComponent_val c AND component_mask K) \<noteq> 0)"
    by (auto simp add: ShouldLog_def)
  have stderr: "\<And>m. worth_reporting m \<Longrightarrow> StderrLogger_Write e L1 m tr \<noteq> tr"
    by (simp add: StderrLogger_Write_def is_worth_reporting_def Let_def)
  have w1: "worth_reporting (LogMessageObj_ctor \<lparr>logger_impl = Some (Stderr L1), trace = tr\<rparr> l c)
      = ShouldLog L1 l c"
    by (simp add: LogMessageObj_ctor_def LogManager_ShouldLog_def)
  have w2: "worth_reporting (LogMessageObj_ctor
        \<lparr>logger_impl = Some (CForwarding (SetCallback L2 (Some f))), trace = tr\<rparr> l c)
      = ShouldLog L2 l c"
    by (simp add: LogMessageObj_ctor_def LogManager_ShouldLog_def ShouldLog_def SetCallback_def)
  have cb: "callback (SetCallback L2 (Some f)) = Some f"
    by (simp add: SetCallback_def)
  have lc: "\<And>w. level (LogMessageObj_ctor w l c) = l \<and> component (LogMessageObj_ctor w l c) = c"
    by (simp add: LogMessageObj_ctor_def)
  have d1: "(trace (LogMessageObj_dtor e
          (fold append as
            (LogMessageObj_ctor \<lparr>logger_impl = Some (Stderr L1), trace = tr\<rparr> l c))
          \<lparr>logger_impl = Some (Stderr L1), trace = tr\<rparr>) \<noteq> tr) = ShouldLog L1 l c"
    using stderr
    by (simp add: LogMessageObj_dtor_def LogManager_Write_def fold_append_message w1)
  have d2: "trace (LogMessageObj_dtor e
          (fold append as
            (LogMessageObj_ctor
              \<lparr>logger_impl = Some (CForwarding (SetCallback L2 (Some f))), trace = tr\<rparr> l c))
          \<lparr>logger_impl = Some (CForwarding (SetCallback L2 (Some f))), trace = tr\<rparr>) =
     (if ShouldLog L2 l c
      then tr @ [Callback f (uint (LogLevel_val l)) (uint (LogSourceComponent_val c))
                  (c_str (msg_buffer (fold append as
                     (LogMessageObj_ctor
                        \<lparr>logger_impl = Some (CForwarding (SetCallback L2 (Some f))),
                         trace = tr\<rparr> l c))))]
      else tr)"
    by (simp add: LogMessageObj_dtor_def LogManager_Write_def CForwardingLogger_Write_def
        is_worth_reporting_def MsgString_def Let_def fold_append_message w2 lc cb)
  show ?thesis
    using d1 d2 by (simp add: filter LogManager_ShouldLog_def)
qed

text \<open>
  C9. A sink that has just been constructed has the mask \<^verbatim>\<open>0xFFFFFFFF\<close> and the
  threshold \<^verbatim>\<open>kTrace\<close>, and accepts every level and every component of the two
  enumerations.
\<close>

theorem fresh_sink_accepts_all:
  "component_mask LoggerInterface_ctor = 0xFFFFFFFF
   \<and> level_threshold LoggerInterface_ctor = LogLevel_val kTrace
   \<and> ShouldLog LoggerInterface_ctor l c
   \<and> Logger_ShouldLog (Stderr StderrLogger_ctor) l c
   \<and> Logger_ShouldLog (CForwarding CForwardingLogger_ctor) l c"
  by (cases l; cases c;
      simp add: ShouldLog_def LoggerInterface_ctor_def StderrLogger_ctor_def
        CForwardingLogger_ctor_def)

section \<open>Suppressed messages and the cached decision\<close>

text \<open>
  C2. On a message whose cached flag is false, any sequence of append operations of any
  kind leaves the buffer (and the whole message) unchanged, \<open>MsgString\<close> is the empty
  string, and the destructor leaves the manager's state and the trace of the sinks as
  they were.
\<close>

theorem suppressed_message_inert:
  "\<not> worth_reporting m \<Longrightarrow>
     msg_buffer (fold append as m) = msg_buffer m
     \<and> fold append as m = m
     \<and> MsgString (fold append as m) = []
     \<and> LogMessageObj_dtor e (fold append as m) w = w"
  by (simp add: fold_append_suppressed MsgString_def LogMessageObj_dtor_def)

theorem suppressed_message_inert_witness:
  "\<not> worth_reporting
       (LogMessageObj_ctor (LogManager_SetLogLevel world_init kError) kDebug kRPC)
   \<and> fold append [Str ''abc'', Int32 5, Bool True, VoidPtr 16, CStr (Ptr 32 ''x'')]
         (LogMessageObj_ctor (LogManager_SetLogLevel world_init kError) kDebug kRPC) =
       LogMessageObj_ctor (LogManager_SetLogLevel world_init kError) kDebug kRPC
   \<and> MsgString
         (fold append [Str ''abc'', Int32 5, Bool True, VoidPtr 16, CStr (Ptr 32 ''x'')]
           (LogMessageObj_ctor (LogManager_SetLogLevel world_init kError) kDebug kRPC)) = []
   \<and> LogMessageObj_dtor \<lparr>asctime = ''Fri Oct 30 08:15:00 2026'', thread_id = ''1''\<rparr>
         (fold append [Str ''abc'', Int32 5, Bool True, VoidPtr 16, CStr (Ptr 32 ''x'')]
           (LogMessageObj_ctor (LogManager_SetLogLevel world_init kError) kDebug kRPC))
         (LogManager_SetLogLevel world_init kError) =
       LogManager_SetLogLevel world_init kError"
proof -
  have h: "\<not> worth_reporting
       (LogMessageObj_ctor (LogManager_SetLogLevel world_init kError) kDebug kRPC)"
    by (simp add: LogMessageObj_ctor_def LogManager_SetLogLevel_def world_init_def
        LogManager_ShouldLog_def ShouldLog_def SetLogLevel_def StderrLogger_ctor_def)
  show ?thesis
    using h suppressed_message_inert [OF h,
        of "[Str ''abc'', Int32 5, Bool True, VoidPtr 16, CStr (Ptr 32 ''x'')]"
           "\<lparr>asctime = ''Fri Oct 30 08:15:00 2026'', thread_id = ''1''\<rparr>"
           "LogManager_SetLogLevel world_init kError"]
    by blast
qed

text \<open>
  C3. The decision is taken once, by \<open>LogManager_ShouldLog\<close> in the constructor, and
  no append and no later change of the threshold, of the mask or of the installed sink
  alters it, nor the level and component of the message. The destructor calls
  \<open>LogManager_Write\<close> once, on the message as it then is, when the decision was to
  accept, and does nothing otherwise.
\<close>

theorem acceptance_fixed_at_construction:
  "worth_reporting (fst (run acts (LogMessageObj_ctor w l c, w))) = LogManager_ShouldLog w l c
   \<and> level (fst (run acts (LogMessageObj_ctor w l c, w))) = l
   \<and> component (fst (run acts (LogMessageObj_ctor w l c, w))) = c
   \<and> LogMessageObj_dtor e (fst (run acts (LogMessageObj_ctor w l c, w)))
        (snd (run acts (LogMessageObj_ctor w l c, w))) =
      (if LogManager_ShouldLog w l c
       then LogManager_Write e (fst (run acts (LogMessageObj_ctor w l c, w)))
              (snd (run acts (LogMessageObj_ctor w l c, w)))
       else snd (run acts (LogMessageObj_ctor w l c, w)))"
  by (simp add: run_message LogMessageObj_dtor_def) (simp add: LogMessageObj_ctor_def)

text \<open>
  An instance: a message accepted at (\<^verbatim>\<open>kInfo\<close>, \<^verbatim>\<open>kRPC\<close>) by the forwarding sink is
  still delivered after the threshold has been raised to \<^verbatim>\<open>kError\<close> and \<^verbatim>\<open>kRPC\<close> has been
  disabled, both while the message was being built.
\<close>

lemma in_flight_message_keeps_decision:
  "trace (LogMessageObj_dtor \<lparr>asctime = ''Fri Oct 30 08:15:00 2026'', thread_id = ''1''\<rparr>
       (fst (run [Append (Str ''x''), SetLevel kError, DisableLogForComponent kRPC]
          (LogMessageObj_ctor
             \<lparr>logger_impl = Some (CForwarding (SetCallback CForwardingLogger_ctor (Some 7))),
              trace = []\<rparr> kInfo kRPC,
           \<lparr>logger_impl = Some (CForwarding (SetCallback CForwardingLogger_ctor (Some 7))),
            trace = []\<rparr>)))
       (snd (run [Append (Str ''x''), SetLevel kError, DisableLogForComponent kRPC]
          (LogMessageObj_ctor
             \<lparr>logger_impl = Some (CForwarding (SetCallback CForwardingLogger_ctor (Some 7))),
              trace = []\<rparr> kInfo kRPC,
           \<lparr>logger_impl = Some (CForwarding (SetCallback CForwardingLogger_ctor (Some 7))),
            trace = []\<rparr>))))
   = [Cerr (''SETLOGLEVEL_CALLED_'' @ [CHR 0x0A]), Callback 7 2 2 ''x'']"
  by (simp add: LogMessageObj_dtor_def LogMessageObj_ctor_def shl_string_def
      LogManager_ShouldLog_def ShouldLog_def SetCallback_def CForwardingLogger_ctor_def
      LogManager_Write_def CForwardingLogger_Write_def is_worth_reporting_def MsgString_def
      LogManager_SetLogLevel_def LogManager_DisableLogForComponent_def SetLogLevel_def
      DisableLoggingForComponent_def c_str_def)

text \<open>
  C4. With no sink installed the manager's \<open>ShouldLog\<close> is false for every level and
  component, and \<open>Write\<close>, \<open>EnableLogForComponent\<close>, \<open>DisableLogForComponent\<close>
  and \<open>SetLogLevel\<close> return the state unchanged: nothing is written and nothing fails.
\<close>

theorem no_sink_no_op:
  "logger_impl w = None \<Longrightarrow>
     LogManager_ShouldLog w l c = False
     \<and> LogManager_Write e m w = w
     \<and> LogManager_EnableLogForComponent w c = w
     \<and> LogManager_DisableLogForComponent w c = w
     \<and> LogManager_SetLogLevel w l = w"
  by (simp add: LogManager_ShouldLog_def LogManager_Write_def
      LogManager_EnableLogForComponent_def LogManager_DisableLogForComponent_def
      LogManager_SetLogLevel_def)

theorem no_sink_no_op_witness:
  "logger_impl (LogManager_SetLoggerImplementation world_init None) = None
   \<and> LogManager_ShouldLog (LogManager_SetLoggerImplementation world_init None) kError kRPC
       = False
   \<and> LogManager_Write \<lparr>asctime = ''Fri Oct 30 08:15:00 2026'', thread_id = ''1''\<rparr>
         \<lparr>worth_reporting = True, level = kError, component = kRPC, msg_buffer = ''hi''\<rparr>
         (LogManager_SetLoggerImplementation world_init None) =
       LogManager_SetLoggerImplementation world_init None
   \<and> LogManager_EnableLogForComponent
         (LogManager_SetLoggerImplementation world_init None) kRPC =
       LogManager_SetLoggerImplementation world_init None
   \<and> LogManager_DisableLogForComponent
         (LogManager_SetLoggerImplementation world_init None) kRPC =
       LogManager_SetLoggerImplementation world_init None
   \<and> LogManager_SetLogLevel (LogManager_SetLoggerImplementation world_init None) kError =
       LogManager_SetLoggerImplementation world_init None"
proof -
  have h: "logger_impl (LogManager_SetLoggerImplementation world_init None) = None"
    by (simp add: LogManager_SetLoggerImplementation_def)
  show ?thesis
    using h no_sink_no_op [OF h, of kError kRPC
        "\<lparr>asctime = ''Fri Oct 30 08:15:00 2026'', thread_id = ''1''\<rparr>"
        "\<lparr>worth_reporting = True, level = kError, component = kRPC, msg_buffer = ''hi''\<rparr>"]
    by blast
qed

text \<open>
  C10. Appending a null \<^verbatim>\<open>const char*\<close> or a null \<^verbatim>\<open>const std::string*\<close> returns the
  message unchanged, whether or not it is worth reporting; the model has nothing to read
  behind a null pointer.
\<close>

theorem null_pointer_append_no_op:
  "shl_cstr m nullptr = m \<and> shl_string_ptr m nullptr = m"
  by (simp add: shl_cstr_def shl_string_ptr_def)

section \<open>Text appended to an accepted message\<close>

text \<open>
  On an accepted message with an empty buffer, the \<^verbatim>\<open>const char*\<close> and the
  \<^verbatim>\<open>const std::string&\<close> overloads make \<open>MsgString\<close> exactly the text appended, the
  empty text included.
\<close>

lemma text_append_exact:
  "worth_reporting m \<Longrightarrow> msg_buffer m = [] \<Longrightarrow>
     MsgString (shl_cstr m (Ptr a s)) = s \<and> MsgString (shl_string m s) = s"
  by (simp add: MsgString_def shl_cstr_def shl_string_def)

text \<open>
  C5. The \<^verbatim>\<open>const std::string*\<close> overload does not deliver the text: a message
  accepted at (\<^verbatim>\<open>kError\<close>, \<^verbatim>\<open>kRPC\<close>) to which a pointer to the string \<^verbatim>\<open>abc\<close> at
  address \<^verbatim>\<open>0x7ffe0010\<close> is appended reaches the callback of the forwarding sink with
  the text \<^verbatim>\<open>0x7ffe0010\<close>.
\<close>

theorem string_pointer_append_writes_address:
  "trace (LogMessageObj_dtor \<lparr>asctime = ''Fri Oct 30 08:15:00 2026'', thread_id = ''1''\<rparr>
       (shl_string_ptr
          (LogMessageObj_ctor
             \<lparr>logger_impl = Some (CForwarding (SetCallback CForwardingLogger_ctor (Some 7))),
              trace = []\<rparr> kError kRPC)
          (Ptr 0x7ffe0010 ''abc''))
       \<lparr>logger_impl = Some (CForwarding (SetCallback CForwardingLogger_ctor (Some 7))),
        trace = []\<rparr>)
   = [Callback 7 4 2 ''0x7ffe0010'']"
  by (simp add: LogMessageObj_dtor_def shl_string_ptr_def LogMessageObj_ctor_def
      LogManager_ShouldLog_def ShouldLog_def SetCallback_def CForwardingLogger_ctor_def
      LogManager_Write_def CForwardingLogger_Write_def is_worth_reporting_def MsgString_def
      c_str_def address_string_def digit_char_def)

section \<open>The console sink\<close>

text \<open>
  The toggle \<open>show_thread\<close> is never read: setting it changes no output.
\<close>

lemma set_show_thread_no_effect:
  "StderrLogger_Write e (set_show_thread L b) m tr = StderrLogger_Write e L m tr"
  by (simp add: StderrLogger_Write_def set_show_thread_def)

text \<open>
  C8. The thread field is not controlled by its own toggle. With \<open>show_thread\<close> set to
  false and the other three toggles true the line still carries the thread identifier; with
  \<open>show_component\<close> set to false and \<open>show_thread\<close> true, the component tag and the
  thread identifier are both absent.
\<close>

theorem thread_field_follows_component_toggle:
  "StderrLogger_Write
     \<lparr>asctime = ''Fri Oct 30 08:15:00 2026'' @ [CHR 0x0A], thread_id = ''140''\<rparr>
     (set_show_thread StderrLogger_ctor False)
     \<lparr>worth_reporting = True, level = kError, component = kRPC, msg_buffer = ''hi''\<rparr> []
   = [Cerr (''[ERROR ][RPC         ][Fri Oct 30 08:15:00 2026][Thread id = 140]    hi''
            @ [CHR 0x0A])]
   \<and> StderrLogger_Write
     \<lparr>asctime = ''Fri Oct 30 08:15:00 2026'' @ [CHR 0x0A], thread_id = ''140''\<rparr>
     (set_show_component StderrLogger_ctor False)
     \<lparr>worth_reporting = True, level = kError, component = kRPC, msg_buffer = ''hi''\<rparr> []
   = [Cerr (''[ERROR ][Fri Oct 30 08:15:00 2026]    hi'' @ [CHR 0x0A])]"
  by (simp add: StderrLogger_Write_def set_show_thread_def set_show_component_def
      StderrLogger_ctor_def is_worth_reporting_def level_string_def component_string_def
      kLevelStrings_def kComponentStrings_def MsgString_def Let_def)

section \<open>Copying and freeing a record\<close>

text \<open>
  What holds of \<open>CopyLogData\<close> and \<open>FreeLogData\<close>: a null input gives null, a failed
  \<^verbatim>\<open>malloc\<close> gives null, freeing null does nothing; and when the original has a text and
  both allocations succeed on fresh addresses, the copy has the original's level and
  component and a character array of its own with the same characters, and freeing the
  copy leaves exactly the objects that were live before.
\<close>

lemmas heap_defs =
  CopyLogData_def FreeLogData_def malloc_LogData_def strdup_def free_def load_def update_def
  and_then_def

lemma CopyLogData_null: "CopyLogData h NULL = Inr (NULL, h)"
  by (simp add: CopyLogData_def)

lemma CopyLogData_malloc_fails: "avail h = [] \<Longrightarrow> CopyLogData h orig = Inr (NULL, h)"
  by (simp add: CopyLogData_def malloc_LogData_def)

lemma FreeLogData_null: "FreeLogData h NULL = Inr h"
  by (simp add: FreeLogData_def)

lemma CopyLogData_deep_copy:
  assumes "orig \<noteq> NULL" and "objects h orig = Some (LogDataObj od)"
    and "data_msg od \<noteq> NULL" and "objects h (data_msg od) = Some (CharsObj cs)"
    and "avail h = (p, st) # (q, st') # rest"
    and "p \<noteq> NULL" and "q \<noteq> NULL" and "p \<noteq> q"
    and "objects h p = None" and "objects h q = None"
  shows "CopyLogData h orig =
           Inr (p, h\<lparr>objects := (objects h)
                      (p \<mapsto> LogDataObj \<lparr>data_level = data_level od,
                                          data_component = data_component od, data_msg = q\<rparr>,
                       q \<mapsto> CharsObj cs),
                    avail := rest\<rparr>)"
proof -
  have "p \<noteq> orig" "p \<noteq> data_msg od" "q \<noteq> orig" "q \<noteq> data_msg od"
    using assms by auto
  moreover have "st\<lparr>data_level := data_level od, data_component := data_component od,
      data_msg := q\<rparr> = \<lparr>data_level = data_level od,
      data_component = data_component od, data_msg = q\<rparr>"
    by (cases st) simp
  ultimately show ?thesis
    using assms by (cases h) (auto simp add: heap_defs fun_upd_twist)
qed

lemma Copy_then_Free_restores:
  assumes "orig \<noteq> NULL" and "objects h orig = Some (LogDataObj od)"
    and "data_msg od \<noteq> NULL" and "objects h (data_msg od) = Some (CharsObj cs)"
    and "avail h = (p, st) # (q, st') # rest"
    and "p \<noteq> NULL" and "q \<noteq> NULL" and "p \<noteq> q"
    and "objects h p = None" and "objects h q = None"
  shows "and_then (CopyLogData h orig) (\<lambda>(c, h'). FreeLogData h' c) =
           Inr (h\<lparr>avail := rest\<rparr>)"
proof -
  have "(objects h)(p := None, q := None) = objects h"
    using assms by (auto simp add: fun_eq_iff)
  then show ?thesis
    using assms
    by (simp add: CopyLogData_deep_copy [OF assms])
       (simp add: FreeLogData_def and_then_def load_def free_def update_def fun_upd_twist)
qed

text \<open>
  C6. Two inputs on which \<open>CopyLogData\<close> does not return what is described. When
  \<^verbatim>\<open>malloc\<close> succeeds and the allocation inside \<^verbatim>\<open>strdup\<close> fails, the result is not null:
  it is a copy whose \<^verbatim>\<open>msg\<close> is null although the original has the text \<^verbatim>\<open>abc\<close>. When
  the original's \<^verbatim>\<open>msg\<close> is null, the copy's \<^verbatim>\<open>msg\<close> is never assigned and keeps the
  bytes that were in the block (here the address 99), so it differs from the original's.
\<close>

theorem CopyLogData_partial_copy:
  "(case CopyLogData
          \<lparr>objects = [1 \<mapsto> LogDataObj \<lparr>data_level = 4, data_component = 2, data_msg = 2\<rparr>,
                      2 \<mapsto> CharsObj ''abc''],
           avail = [(10, \<lparr>data_level = 0, data_component = 0, data_msg = NULL\<rparr>)]\<rparr> 1 of
      Inl f \<Rightarrow> False
    | Inr (copy, h) \<Rightarrow>
        copy = 10
        \<and> objects h copy =
            Some (LogDataObj \<lparr>data_level = 4, data_component = 2, data_msg = NULL\<rparr>))
   \<and> (case CopyLogData
          \<lparr>objects = [1 \<mapsto> LogDataObj \<lparr>data_level = 4, data_component = 2, data_msg = NULL\<rparr>],
           avail = [(10, \<lparr>data_level = 0, data_component = 0, data_msg = 99\<rparr>)]\<rparr> 1 of
      Inl f \<Rightarrow> False
    | Inr (copy, h) \<Rightarrow>
        copy = 10
        \<and> objects h copy =
            Some (LogDataObj \<lparr>data_level = 4, data_component = 2, data_msg = 99\<rparr>))"
  by (simp add: heap_defs)

text \<open>
  C7. Copying a record whose \<^verbatim>\<open>msg\<close> is null and freeing the copy: \<open>FreeLogData\<close>
  passes the unassigned \<^verbatim>\<open>msg\<close> of the copy to \<^verbatim>\<open>free\<close>. When those bytes are the
  address 99, where nothing is live, this is an invalid \<^verbatim>\<open>free\<close>; when they are the
  address of the original record, the original is freed.
\<close>

theorem copy_then_free_harms_original:
  "and_then
     (CopyLogData
        \<lparr>objects = [1 \<mapsto> LogDataObj \<lparr>data_level = 4, data_component = 2, data_msg = NULL\<rparr>],
         avail = [(10, \<lparr>data_level = 0, data_component = 0, data_msg = 99\<rparr>)]\<rparr> 1)
     (\<lambda>(copy, h). FreeLogData h copy)
   = Inl (InvalidFree 99)
   \<and> (case and_then
        (CopyLogData
           \<lparr>objects = [1 \<mapsto> LogDataObj \<lparr>data_level = 4, data_component = 2, data_msg = NULL\<rparr>],
            avail = [(10, \<lparr>data_level = 0, data_component = 0, data_msg = 1\<rparr>)]\<rparr> 1)
        (\<lambda>(copy, h). FreeLogData h copy) of
      Inl f \<Rightarrow> False
    | Inr h \<Rightarrow> objects h 1 = None)"
  by (simp add: heap_defs)

end
